theory Spec2Isabelle
  imports Complex_Main
begin

section \<open>JavaScript values\<close>

text \<open>
  The values that flow through \<^verbatim>\<open>src/lib/fetcher.tsx\<close> are what \<^verbatim>\<open>response.json()\<close>
  parses, the object literals of \<^verbatim>\<open>defaults\<close>, and \<^verbatim>\<open>undefined\<close>. An object is the
  list of its own enumerable properties in insertion order. A number carries the rational
  it denotes: the only thing the code asks of a number is whether it is zero.
\<close>

datatype jsval =
    Undefined
  | Null
  | Bool bool
  | Num rat
  | Str string
  | Arr "jsval list"
  | Obj "(string \<times> jsval) list"

text \<open>An \<^verbatim>\<open>Error\<close> object; the code reads nothing of it but \<^verbatim>\<open>message\<close>.\<close>

datatype js_error = Error (message: string)

text \<open>
  What makes a \<^verbatim>\<open>.then\<close> chain end rejected: a rejection that no handler caught, or the
  \<^verbatim>\<open>TypeError\<close> of reading a property of \<^verbatim>\<open>null\<close> or \<^verbatim>\<open>undefined\<close>.
\<close>

datatype thrown = Rejection js_error | TypeError

text \<open>JavaScript's ToBoolean, as the conditional operator applies it.\<close>

fun truthy :: "jsval \<Rightarrow> bool" where
  "truthy Undefined = False"
| "truthy Null = False"
| "truthy (Bool b) = b"
| "truthy (Num n) = (n \<noteq> 0)"
| "truthy (Str s) = (s \<noteq> [])"
| "truthy (Arr xs) = True"
| "truthy (Obj kvs) = True"

text \<open>
  The property read \<^verbatim>\<open>x.error\<close>. It throws on \<^verbatim>\<open>null\<close> and \<^verbatim>\<open>undefined\<close>; an object
  gives its own property or \<^verbatim>\<open>undefined\<close>; a boolean, number, string or array has no
  property of that name, own or inherited.
\<close>

fun prop_error :: "jsval \<Rightarrow> thrown + jsval" where
  "prop_error Undefined = Inl TypeError"
| "prop_error Null = Inl TypeError"
| "prop_error (Obj kvs) = Inr (case map_of kvs ''error'' of None \<Rightarrow> Undefined | Some v \<Rightarrow> v)"
| "prop_error (Bool b) = Inr Undefined"
| "prop_error (Num n) = Inr Undefined"
| "prop_error (Str s) = Inr Undefined"
| "prop_error (Arr xs) = Inr Undefined"

text \<open>Decimal digits of an array index, the property name of an element.\<close>

definition digit_char :: "nat \<Rightarrow> char" where
  "digit_char d = ''0123456789'' ! d"

function decimal :: "nat \<Rightarrow> string" where
  "decimal n = (if n < 10 then [digit_char n] else decimal (n div 10) @ [digit_char (n mod 10)])"
  by pat_completeness auto
termination
  by (relation "measure id") auto

declare decimal.simps [simp del]

fun indexed :: "nat \<Rightarrow> jsval list \<Rightarrow> (string \<times> jsval) list" where
  "indexed i [] = []"
| "indexed i (x # xs) = (decimal i, x) # indexed (Suc i) xs"

text \<open>
  The own enumerable properties that the spread \<^verbatim>\<open>{...x}\<close> copies: those of an object,
  the elements of an array and the characters of a string under their indices, and
  nothing for the other values.
\<close>

fun own_props :: "jsval \<Rightarrow> (string \<times> jsval) list" where
  "own_props (Obj kvs) = kvs"
| "own_props (Arr xs) = indexed 0 xs"
| "own_props (Str s) = indexed 0 (map (\<lambda>c. Str [c]) s)"
| "own_props Undefined = []"
| "own_props Null = []"
| "own_props (Bool b) = []"
| "own_props (Num n) = []"

text \<open>
  Defining a property in an object literal: an existing name keeps its place and takes
  the new value, a new name goes last.
\<close>

fun put :: "string \<Rightarrow> jsval \<Rightarrow> (string \<times> jsval) list \<Rightarrow> (string \<times> jsval) list" where
  "put k v [] = [(k, v)]"
| "put k v (p # ps) = (if fst p = k then (k, v) # ps else p # put k v ps)"

text \<open>The object literal \<^verbatim>\<open>{ ...x, error: v }\<close>.\<close>

definition spread_error :: "jsval \<Rightarrow> jsval \<Rightarrow> jsval" where
  "spread_error x v = Obj (put ''error'' v (own_props x))"

section \<open>Promises, responses and the network\<close>

text \<open>
  A promise is modelled by what it settles to: \<open>Inl\<close> the rejection reason, \<open>Inr\<close> the
  fulfilment value. A request that never settles is outside this model.
\<close>

type_synonym 'a promise = "js_error + 'a"

definition then_p :: "'a promise \<Rightarrow> ('a \<Rightarrow> 'b promise) \<Rightarrow> 'b promise" where
  "then_p p f = (case p of Inl e \<Rightarrow> Inl e | Inr x \<Rightarrow> f x)"

definition catch_p :: "'a promise \<Rightarrow> (js_error \<Rightarrow> 'a promise) \<Rightarrow> 'a promise" where
  "catch_p p h = (case p of Inl e \<Rightarrow> h e | Inr x \<Rightarrow> Inr x)"

text \<open>
  \<^verbatim>\<open>Promise.all\<close>: fulfilled with all the values in the order of the array, rejected as
  soon as one element is.
\<close>

fun promise_all :: "'a promise list \<Rightarrow> 'a list promise" where
  "promise_all [] = Inr []"
| "promise_all (p # ps) =
     (case p of
        Inl e \<Rightarrow> Inl e
      | Inr x \<Rightarrow> (case promise_all ps of Inl e \<Rightarrow> Inl e | Inr xs \<Rightarrow> Inr (x # xs)))"

text \<open>
  A \<^verbatim>\<open>Response\<close>: its status and what \<^verbatim>\<open>response.json()\<close> settles to (the parsed body,
  or the parser's error). \<^verbatim>\<open>response.ok\<close> is the Fetch standard's: a status from 200
  to 299.
\<close>

datatype response = Response (resp_status: nat) (resp_json: "jsval promise")

definition ok :: "response \<Rightarrow> bool" where
  "ok r = (200 \<le> resp_status r \<and> resp_status r \<le> 299)"

text \<open>
  The network: what \<^verbatim>\<open>fetch(path)\<close> settles to for each path (rejected on a network
  failure, fulfilled with a response of any status otherwise), and the log of the
  requests issued so far.
\<close>

record network =
  server :: "string \<Rightarrow> response promise"
  requests :: "string list"

definition fetch :: "string \<Rightarrow> network \<Rightarrow> response promise \<times> network" where
  "fetch path nw = (server nw path, nw\<lparr>requests := requests nw @ [path]\<rparr>)"

section \<open>The fetcher module\<close>

definition errorMessage :: string where
  "errorMessage = ''Failed to load data.''"

definition handleResponse :: "response \<Rightarrow> jsval promise" where
  "handleResponse r = (if ok r then resp_json r else Inl (Error errorMessage))"

definition defaults_app :: jsval where
  "defaults_app = Obj [(''categories'', Arr []), (''apps'', Arr []), (''error'', Bool False)]"

definition defaults_bookmark :: jsval where
  "defaults_bookmark = Obj [(''groups'', Arr []), (''error'', Bool False)]"

definition defaults_search :: jsval where
  "defaults_search = Obj [(''providers'', Arr []), (''error'', Bool False)]"

definition defaults_theme :: jsval where
  "defaults_theme = Obj [(''themes'', Arr []), (''error'', Bool False)]"

definition defaults_imprint :: jsval where
  "defaults_imprint = Obj
     [(''imprint'', Obj
        [(''name'', Obj [(''text'', Str ''''), (''link'', Str '''')]),
         (''address'', Obj [(''text'', Str ''''), (''link'', Str '''')]),
         (''phone'', Obj [(''text'', Str ''''), (''link'', Str '''')]),
         (''email'', Obj [(''text'', Str ''''), (''link'', Str '''')]),
         (''url'', Obj [(''text'', Str ''''), (''link'', Str '''')]),
         (''text'', Str '''')]),
      (''error'', Bool False)]"

text \<open>The \<^verbatim>\<open>switch\<close> of \<^verbatim>\<open>handleError\<close>; its \<^verbatim>\<open>default\<close> branch returns nothing.\<close>

definition handleError :: "string \<Rightarrow> js_error \<Rightarrow> jsval" where
  "handleError status error =
     (if status = ''apps'' then spread_error defaults_app (Str (message error))
      else if status = ''bookmark'' then spread_error defaults_bookmark (Str (message error))
      else if status = ''searchProvider'' then spread_error defaults_search (Str (message error))
      else if status = ''theme'' then spread_error defaults_theme (Str (message error))
      else if status = ''imprint'' then spread_error defaults_imprint (Str (message error))
      else Undefined)"

text \<open>
  The array given to \<^verbatim>\<open>Promise.all\<close> in \<^verbatim>\<open>fetchProduction\<close>: five requests issued in
  the order of the array, each followed by \<^verbatim>\<open>.then(handleResponse)\<close> and by a
  \<^verbatim>\<open>.catch\<close> that answers with \<^verbatim>\<open>handleError\<close> of that resource's status string.
\<close>

definition production_loads :: "network \<Rightarrow> jsval list promise \<times> network" where
  "production_loads nw0 =
     (let (r1, nw1) = fetch ''/data/apps.json'' nw0;
          (r2, nw2) = fetch ''/data/bookmarks.json'' nw1;
          (r3, nw3) = fetch ''/data/search.json'' nw2;
          (r4, nw4) = fetch ''/data/themes.json'' nw3;
          (r5, nw5) = fetch ''/data/imprint.json'' nw4
      in (promise_all
           [catch_p (then_p r1 handleResponse) (\<lambda>error. Inr (handleError ''apps'' error)),
            catch_p (then_p r2 handleResponse) (\<lambda>error. Inr (handleError ''bookmark'' error)),
            catch_p (then_p r3 handleResponse) (\<lambda>error. Inr (handleError ''searchProvider'' error)),
            catch_p (then_p r4 handleResponse) (\<lambda>error. Inr (handleError ''theme'' error)),
            catch_p (then_p r5 handleResponse) (\<lambda>error. Inr (handleError ''imprint'' error))],
          nw5))"

text \<open>
  The array of \<^verbatim>\<open>fetchDevelopment\<close>. The bundled JSON files are not part of the sources
  at hand, so what each dynamic \<^verbatim>\<open>import\<close> settles to is a parameter.
\<close>

definition development_loads :: "(string \<Rightarrow> jsval promise) \<Rightarrow> jsval list promise" where
  "development_loads importer =
     promise_all
       [importer ''../data/apps.json'',
        importer ''../data/bookmarks.json'',
        importer ''../data/search.json'',
        importer ''../data/themes.json'',
        importer ''../data/imprint.json'']"

text \<open>
  The module's top-level constants. \<^verbatim>\<open>fetchProduction\<close> and \<^verbatim>\<open>fetchDevelopment\<close> are
  promises, not functions: their initialisers run once, when the module is evaluated,
  and the constants hold what those promises settle to.
\<close>

record fetcher_module =
  inProduction :: bool
  fetchProduction :: "jsval list promise"
  fetchDevelopment :: "jsval list promise"

definition load_module ::
  "string \<Rightarrow> (string \<Rightarrow> jsval promise) \<Rightarrow> network \<Rightarrow> fetcher_module \<times> network" where
  "load_module node_env importer nw =
     (let (prod, nw') = production_loads nw
      in (\<lparr>inProduction = (node_env = ''production''),
           fetchProduction = prod,
           fetchDevelopment = development_loads importer\<rparr>, nw'))"

section \<open>The state of \<^verbatim>\<open>useFetcher\<close>\<close>

text \<open>The five \<^verbatim>\<open>useState\<close> variables.\<close>

record store =
  appData :: jsval
  bookmarkData :: jsval
  searchProviderData :: jsval
  themeData :: jsval
  imprintData :: jsval

definition initial_store :: store where
  "initial_store =
     \<lparr>appData = defaults_app,
      bookmarkData = defaults_bookmark,
      searchProviderData = defaults_search,
      themeData = defaults_theme,
      imprintData = defaults_imprint\<rparr>"

definition setAppData :: "jsval \<Rightarrow> store \<Rightarrow> store" where
  "setAppData v st = st\<lparr>appData := v\<rparr>"

definition setBookmarkData :: "jsval \<Rightarrow> store \<Rightarrow> store" where
  "setBookmarkData v st = st\<lparr>bookmarkData := v\<rparr>"

definition setSearchProviderData :: "jsval \<Rightarrow> store \<Rightarrow> store" where
  "setSearchProviderData v st = st\<lparr>searchProviderData := v\<rparr>"

definition setThemeData :: "jsval \<Rightarrow> store \<Rightarrow> store" where
  "setThemeData v st = st\<lparr>themeData := v\<rparr>"

definition setImprintData :: "jsval \<Rightarrow> store \<Rightarrow> store" where
  "setImprintData v st = st\<lparr>imprintData := v\<rparr>"

text \<open>
  One statement of the handler,
  \<^verbatim>\<open>(x.error) ? setX(x) : setX({ ...x, error: false })\<close>.
  The read of \<^verbatim>\<open>x.error\<close> may throw; the setter has not run then.
\<close>

definition write_slice ::
  "(jsval \<Rightarrow> store \<Rightarrow> store) \<Rightarrow> jsval \<Rightarrow> store \<Rightarrow> thrown option \<times> store" where
  "write_slice setter x st =
     (case prop_error x of
        Inl t \<Rightarrow> (Some t, st)
      | Inr e \<Rightarrow>
          (None, if truthy e then setter x st else setter (spread_error x (Bool False)) st))"

text \<open>
  Statements in sequence: an exception ends the block, and the state written by the
  statements before it stays written.
\<close>

fun run_block ::
  "(store \<Rightarrow> thrown option \<times> store) list \<Rightarrow> store \<Rightarrow> thrown option \<times> store" where
  "run_block [] st = (None, st)"
| "run_block (s # ss) st =
     (case s st of
        (Some t, st') \<Rightarrow> (Some t, st')
      | (None, st') \<Rightarrow> run_block ss st')"

text \<open>Array destructuring: a position beyond the array's end binds \<^verbatim>\<open>undefined\<close>.\<close>

definition element :: "jsval list \<Rightarrow> nat \<Rightarrow> jsval" where
  "element xs i = (if i < length xs then xs ! i else Undefined)"

text \<open>The fulfilment handler that \<^verbatim>\<open>callback\<close> passes to \<^verbatim>\<open>.then\<close>.\<close>

definition on_loaded :: "jsval list \<Rightarrow> store \<Rightarrow> thrown option \<times> store" where
  "on_loaded results st =
     run_block
       [write_slice setAppData (element results 0),
        write_slice setBookmarkData (element results 1),
        write_slice setSearchProviderData (element results 2),
        write_slice setThemeData (element results 3),
        write_slice setImprintData (element results 4)] st"

text \<open>
  \<^verbatim>\<open>callback\<close>: \<^verbatim>\<open>.then\<close> on the module's promise. The result is the exception that the
  chain ends with, if any, and the state variables after the handler.
  A rejected promise skips the handler.
\<close>

definition callback :: "fetcher_module \<Rightarrow> store \<Rightarrow> thrown option \<times> store" where
  "callback m st =
     (case (if inProduction m then fetchProduction m else fetchDevelopment m) of
        Inl e \<Rightarrow> (Some (Rejection e), st)
      | Inr results \<Rightarrow> on_loaded results st)"

section \<open>The hooks of \<^verbatim>\<open>useFetcher\<close>\<close>

text \<open>
  React keeps one cell per hook call of a mounted component, in call order.
  \<^verbatim>\<open>useState(initial)\<close> gives \<^verbatim>\<open>initial\<close> on the first render and the current state on
  every later one. \<^verbatim>\<open>useCallback(fn, deps)\<close> gives \<^verbatim>\<open>fn\<close> on the first render and the
  memoised function afterwards, unless \<^verbatim>\<open>deps\<close> changed. \<^verbatim>\<open>useEffect(fn, deps)\<close> runs
  \<^verbatim>\<open>fn\<close> after the first render and after each render whose \<^verbatim>\<open>deps\<close> differ from those
  of the render before. Every render creates a new arrow function; a function is
  identified here by the number of the render that created it.
\<close>

record fiber =
  app_cell :: "jsval option"
  bookmark_cell :: "jsval option"
  search_cell :: "jsval option"
  theme_cell :: "jsval option"
  imprint_cell :: "jsval option"
  callback_cell :: "(nat \<times> nat list) option"
  effect_cell :: "nat list option"
  render_count :: nat

definition unmounted :: fiber where
  "unmounted =
     \<lparr>app_cell = None, bookmark_cell = None, search_cell = None, theme_cell = None,
      imprint_cell = None, callback_cell = None, effect_cell = None, render_count = 0\<rparr>"

definition useState :: "jsval \<Rightarrow> jsval option \<Rightarrow> jsval" where
  "useState initial cell = (case cell of None \<Rightarrow> initial | Some v \<Rightarrow> v)"

definition useCallback ::
  "nat \<Rightarrow> nat list \<Rightarrow> (nat \<times> nat list) option \<Rightarrow> nat \<times> (nat \<times> nat list) option" where
  "useCallback fn deps cell =
     (case cell of
        None \<Rightarrow> (fn, Some (fn, deps))
      | Some (memo, prev) \<Rightarrow> if prev = deps then (memo, cell) else (fn, Some (fn, deps)))"

definition useEffect :: "nat list \<Rightarrow> nat list option \<Rightarrow> bool \<times> nat list option" where
  "useEffect deps cell =
     (case cell of
        None \<Rightarrow> (True, Some deps)
      | Some prev \<Rightarrow> (prev \<noteq> deps, Some deps))"

text \<open>
  What one call of \<^verbatim>\<open>useFetcher\<close> returns: the five state variables, the memoised
  \<^verbatim>\<open>callback\<close>, and whether its effect is to run after this render.
\<close>

record rendered =
  shown :: store
  callback_fn :: nat
  effect_pending :: bool

definition useFetcher :: "fiber \<Rightarrow> rendered \<times> fiber" where
  "useFetcher f =
     (let a = useState defaults_app (app_cell f);
          b = useState defaults_bookmark (bookmark_cell f);
          s = useState defaults_search (search_cell f);
          t = useState defaults_theme (theme_cell f);
          i = useState defaults_imprint (imprint_cell f);
          (cb, cb_cell) = useCallback (render_count f) [] (callback_cell f);
          (pending, eff_cell) = useEffect [cb] (effect_cell f)
      in (\<lparr>shown = \<lparr>appData = a, bookmarkData = b, searchProviderData = s,
                      themeData = t, imprintData = i\<rparr>,
           callback_fn = cb, effect_pending = pending\<rparr>,
          \<lparr>app_cell = Some a, bookmark_cell = Some b, search_cell = Some s,
           theme_cell = Some t, imprint_cell = Some i,
           callback_cell = cb_cell, effect_cell = eff_cell,
           render_count = Suc (render_count f)\<rparr>))"

text \<open>
  A mounted component and the number of times \<^verbatim>\<open>callback\<close> was called by its effect.
  One pass renders; if the effect is pending it calls \<^verbatim>\<open>callback\<close>, whose handler
  writes the state cells through the setters.
\<close>

record component =
  hooks :: fiber
  effect_calls :: nat

definition store_cells :: "store \<Rightarrow> fiber \<Rightarrow> fiber" where
  "store_cells st f =
     f\<lparr>app_cell := Some (appData st), bookmark_cell := Some (bookmarkData st),
       search_cell := Some (searchProviderData st), theme_cell := Some (themeData st),
       imprint_cell := Some (imprintData st)\<rparr>"

definition render_pass :: "fetcher_module \<Rightarrow> component \<Rightarrow> component" where
  "render_pass m c =
     (let (r, f) = useFetcher (hooks c)
      in if effect_pending r
         then \<lparr>hooks = store_cells (snd (callback m (shown r))) f,
               effect_calls = Suc (effect_calls c)\<rparr>
         else \<lparr>hooks = f, effect_calls = effect_calls c\<rparr>)"

section \<open>Notions the properties are stated with\<close>

text \<open>The paths and status strings of the five array elements, in the array's order.\<close>

definition resources :: "(string \<times> string) list" where
  "resources =
     [(''/data/apps.json'', ''apps''),
      (''/data/bookmarks.json'', ''bookmark''),
      (''/data/search.json'', ''searchProvider''),
      (''/data/themes.json'', ''theme''),
      (''/data/imprint.json'', ''imprint'')]"

text \<open>The five defaults and the five state variables, in the array's order.\<close>

definition default_values :: "jsval list" where
  "default_values = [defaults_app, defaults_bookmark, defaults_search, defaults_theme, defaults_imprint]"

definition slices :: "store \<Rightarrow> jsval list" where
  "slices st = [appData st, bookmarkData st, searchProviderData st, themeData st, imprintData st]"

text \<open>
  What one array element is fulfilled with, given what its \<^verbatim>\<open>fetch\<close> settles to: the
  parsed body, or \<^verbatim>\<open>handleError\<close> of the rejection.
\<close>

definition load_result :: "string \<Rightarrow> response promise \<Rightarrow> jsval" where
  "load_result status r =
     (case then_p r handleResponse of
        Inl error \<Rightarrow> handleError status error
      | Inr payload \<Rightarrow> payload)"

text \<open>The value a statement of the handler hands to its setter, if the read does not throw.\<close>

definition new_slice :: "jsval \<Rightarrow> thrown + jsval" where
  "new_slice x =
     (case prop_error x of
        Inl t \<Rightarrow> Inl t
      | Inr e \<Rightarrow> Inr (if truthy e then x else spread_error x (Bool False)))"

text \<open>
  A value that is neither \<^verbatim>\<open>null\<close> nor \<^verbatim>\<open>undefined\<close> and whose \<^verbatim>\<open>error\<close> property is
  absent or falsy.
\<close>

definition no_error_flag :: "jsval \<Rightarrow> bool" where
  "no_error_flag x = (case prop_error x of Inl t \<Rightarrow> False | Inr e \<Rightarrow> \<not> truthy e)"

text \<open>
  The refresh as the specification words it, for comparison with \<open>callback\<close>: every
  invocation runs the five loads anew and writes the slices from their results.
\<close>

definition fresh_refresh :: "network \<Rightarrow> store \<Rightarrow> (thrown option \<times> store) \<times> network" where
  "fresh_refresh nw st =
     (let (p, nw') = production_loads nw
      in (case p of
            Inl e \<Rightarrow> (Some (Rejection e), st)
          | Inr results \<Rightarrow> on_loaded results st, nw'))"

text \<open>
  The two states the specification allows a slice, given its kind's default: error
  \<^verbatim>\<open>false\<close>, or a message string together with the default payload.
\<close>

definition spec_slice_state :: "jsval \<Rightarrow> jsval \<Rightarrow> bool" where
  "spec_slice_state dflt slice =
     (case prop_error slice of
        Inl t \<Rightarrow> False
      | Inr e \<Rightarrow>
          (case e of
             Bool b \<Rightarrow> \<not> b
           | Str msg \<Rightarrow> slice = spread_error dflt (Str msg)
           | _ \<Rightarrow> False))"

section \<open>Example servers\<close>

definition json_ok :: "jsval \<Rightarrow> response promise" where
  "json_ok v = Inr (Response 200 (Inr v))"

definition apps_doc :: jsval where
  "apps_doc = Obj [(''categories'', Arr []), (''apps'', Arr [Obj [(''name'', Str ''Mail'')]])]"

definition bookmarks_doc :: jsval where
  "bookmarks_doc = Obj [(''groups'', Arr [Obj [(''name'', Str ''News'')]])]"

definition search_doc :: jsval where
  "search_doc = Obj [(''providers'', Arr [Obj [(''name'', Str ''Wiki''), (''prefix'', Str ''/w'')]])]"

definition themes_doc :: jsval where
  "themes_doc = Obj [(''themes'', Arr [Obj [(''label'', Str ''Classic''), (''value'', Num 0)]])]"

definition imprint_doc :: jsval where
  "imprint_doc = Obj [(''text'', Str ''Imprint'')]"

text \<open>A server that answers the five paths with their documents and anything else with 404.\<close>

definition healthy_server :: "string \<Rightarrow> response promise" where
  "healthy_server path =
     (if path = ''/data/apps.json'' then json_ok apps_doc
      else if path = ''/data/bookmarks.json'' then json_ok bookmarks_doc
      else if path = ''/data/search.json'' then json_ok search_doc
      else if path = ''/data/themes.json'' then json_ok themes_doc
      else if path = ''/data/imprint.json'' then json_ok imprint_doc
      else Inr (Response 404 (Inl (Error ''Unexpected token''))))"

text \<open>No connection: every \<^verbatim>\<open>fetch\<close> rejects with the browser's error.\<close>

definition offline_server :: "string \<Rightarrow> response promise" where
  "offline_server path = Inl (Error ''Failed to fetch'')"

definition no_imports :: "string \<Rightarrow> jsval promise" where
  "no_imports path = Inl (Error ''Cannot find module'')"

definition production_module :: "(string \<Rightarrow> response promise) \<Rightarrow> fetcher_module" where
  "production_module srv =
     fst (load_module ''production'' no_imports \<lparr>server = srv, requests = []\<rparr>)"

text \<open>
  The apps request fails on the network, the bookmarks answer is a 503, the search
  answer is a 200 whose body is not JSON; themes and imprint load.
\<close>

definition faulty_server :: "string \<Rightarrow> response promise" where
  "faulty_server path =
     (if path = ''/data/apps.json'' then Inl (Error ''Failed to fetch'')
      else if path = ''/data/bookmarks.json''
        then Inr (Response 503 (Inl (Error ''Unexpected end of JSON input'')))
      else if path = ''/data/search.json''
        then Inr (Response 200 (Inl (Error ''Unexpected token < in JSON at position 0'')))
      else healthy_server path)"

text \<open>Every one of the five requests fails, each in its own way.\<close>

definition broken_server :: "string \<Rightarrow> response promise" where
  "broken_server path =
     (if path = ''/data/apps.json'' then Inl (Error ''Failed to fetch'')
      else if path = ''/data/bookmarks.json''
        then Inr (Response 503 (Inl (Error ''Unexpected end of JSON input'')))
      else if path = ''/data/search.json''
        then Inr (Response 200 (Inl (Error ''Unexpected token < in JSON at position 0'')))
      else if path = ''/data/themes.json'' then Inr (Response 404 (Inr Null))
      else Inr (Response 200 (Inl (Error []))))"

text \<open>
  The network after the module was evaluated against the healthy server and the apps
  document was then emptied on the server.
\<close>

definition edited_network :: network where
  "edited_network =
     (snd (load_module ''production'' no_imports \<lparr>server = healthy_server, requests = []\<rparr>))
       \<lparr>server := healthy_server
          (''/data/apps.json'' := json_ok (Obj [(''categories'', Arr []), (''apps'', Arr [])]))\<rparr>"

text \<open>
  A component after its first pass: the function of the first render is memoised, the
  effect's dependencies are that function, the effect has called \<^verbatim>\<open>callback\<close> once, and
  the state cells hold what that call wrote over the initial state.
\<close>

definition settled :: "fetcher_module \<Rightarrow> component \<Rightarrow> bool" where
  "settled m c =
     (callback_cell (hooks c) = Some (0, []) \<and> effect_cell (hooks c) = Some [0]
      \<and> effect_calls c = 1
      \<and> app_cell (hooks c) = Some (appData (snd (callback m initial_store)))
      \<and> bookmark_cell (hooks c) = Some (bookmarkData (snd (callback m initial_store)))
      \<and> search_cell (hooks c) = Some (searchProviderData (snd (callback m initial_store)))
      \<and> theme_cell (hooks c) = Some (themeData (snd (callback m initial_store)))
      \<and> imprint_cell (hooks c) = Some (imprintData (snd (callback m initial_store))))"

section \<open>Lemmas about the model\<close>

lemma chain_settles:
  "catch_p (then_p r handleResponse) (\<lambda>error. Inr (handleError status error))
     = Inr (load_result status r)"
  by (simp add: catch_p_def load_result_def split: sum.splits)

lemma production_loads_results:
  "production_loads nw =
     (Inr [load_result ''apps'' (server nw ''/data/apps.json''),
           load_result ''bookmark'' (server nw ''/data/bookmarks.json''),
           load_result ''searchProvider'' (server nw ''/data/search.json''),
           load_result ''theme'' (server nw ''/data/themes.json''),
           load_result ''imprint'' (server nw ''/data/imprint.json'')],
      nw\<lparr>requests := requests nw @ map fst resources\<rparr>)"
  by (simp add: production_loads_def fetch_def chain_settles resources_def)

lemma production_loads_map:
  "fst (production_loads nw) =
     Inr (map (\<lambda>(path, status). load_result status (server nw path)) resources)"
  by (simp add: production_loads_results resources_def)

lemma load_module_fetchProduction:
  "fetchProduction (fst (load_module env importer nw)) = fst (production_loads nw)"
  by (simp add: load_module_def split_def Let_def)

lemma load_module_inProduction:
  "inProduction (fst (load_module env importer nw)) = (env = ''production'')"
  by (simp add: load_module_def split_def Let_def)

lemma load_module_network:
  "snd (load_module env importer nw) = snd (production_loads nw)"
  by (simp add: load_module_def split_def Let_def)

lemma callback_production:
  "callback (fst (load_module ''production'' importer nw)) st =
     on_loaded
       [load_result ''apps'' (server nw ''/data/apps.json''),
        load_result ''bookmark'' (server nw ''/data/bookmarks.json''),
        load_result ''searchProvider'' (server nw ''/data/search.json''),
        load_result ''theme'' (server nw ''/data/themes.json''),
        load_result ''imprint'' (server nw ''/data/imprint.json'')] st"
  by (simp add: callback_def load_module_fetchProduction load_module_inProduction
      production_loads_results)

lemma write_slice_new_slice:
  "write_slice setter x st =
     (case new_slice x of Inl t \<Rightarrow> (Some t, st) | Inr v \<Rightarrow> (None, setter v st))"
  by (simp add: write_slice_def new_slice_def split: sum.splits)

lemma map_of_put: "map_of (put k v ps) k = Some v"
  by (induction ps) auto

lemma put_put: "put k w (put k v ps) = put k w ps"
  by (induction ps) auto

lemma prop_error_spread: "prop_error (spread_error x v) = Inr v"
  by (simp add: spread_error_def map_of_put)

lemma spread_spread: "spread_error (spread_error x v) w = spread_error x w"
  by (simp add: spread_error_def put_put)

lemma new_slice_defined:
  "x \<noteq> Null \<Longrightarrow> x \<noteq> Undefined \<Longrightarrow> \<exists>v. new_slice x = Inr v"
  by (cases x) (simp_all add: new_slice_def)

lemma new_slice_no_flag:
  "no_error_flag x \<Longrightarrow> new_slice x = Inr (spread_error x (Bool False))"
  by (auto simp: no_error_flag_def new_slice_def split: sum.splits)

lemma on_loaded_complete:
  assumes "new_slice a = Inr a'" "new_slice b = Inr b'" "new_slice c = Inr c'"
    "new_slice d = Inr d'" "new_slice e = Inr e'"
  shows "on_loaded [a, b, c, d, e] st =
     (None, st\<lparr>appData := a', bookmarkData := b', searchProviderData := c',
                themeData := d', imprintData := e'\<rparr>)"
  using assms
  by (simp add: on_loaded_def element_def write_slice_new_slice setAppData_def
      setBookmarkData_def setSearchProviderData_def setThemeData_def setImprintData_def)

lemma on_loaded_completed:
  assumes "on_loaded [a, b, c, d, e] st = (None, st')"
  shows "new_slice a = Inr (appData st') \<and> new_slice b = Inr (bookmarkData st')
     \<and> new_slice c = Inr (searchProviderData st') \<and> new_slice d = Inr (themeData st')
     \<and> new_slice e = Inr (imprintData st')"
  using assms
  by (auto simp: on_loaded_def element_def write_slice_new_slice setAppData_def
      setBookmarkData_def setSearchProviderData_def setThemeData_def setImprintData_def
      split: sum.splits)

lemma on_loaded_again:
  "on_loaded t (snd (on_loaded t st)) = on_loaded t st"
  by (auto simp: on_loaded_def write_slice_new_slice setAppData_def
      setBookmarkData_def setSearchProviderData_def setThemeData_def setImprintData_def
      split: sum.splits)

lemma callback_again: "callback m (snd (callback m st)) = callback m st"
  by (simp add: callback_def on_loaded_again split: sum.splits)

lemma load_result_network: "load_result status (Inl e) = handleError status e"
  by (simp add: load_result_def then_p_def)

lemma load_result_status:
  "\<not> ok resp \<Longrightarrow> load_result status (Inr resp) = handleError status (Error errorMessage)"
  by (simp add: load_result_def then_p_def handleResponse_def)

lemma load_result_unparsable:
  "ok resp \<Longrightarrow> resp_json resp = Inl e \<Longrightarrow> load_result status (Inr resp) = handleError status e"
  by (simp add: load_result_def then_p_def handleResponse_def)

lemma load_result_parsed:
  "ok resp \<Longrightarrow> resp_json resp = Inr v \<Longrightarrow> load_result status (Inr resp) = v"
  by (simp add: load_result_def then_p_def handleResponse_def)

lemma load_result_rejected:
  "then_p r handleResponse = Inl e \<Longrightarrow> load_result status r = handleError status e"
  by (simp add: load_result_def)

lemma load_result_fulfilled:
  "then_p r handleResponse = Inr v \<Longrightarrow> load_result status r = v"
  by (simp add: load_result_def)

lemma handleError_resources:
  "i < 5 \<Longrightarrow> handleError (snd (resources ! i)) e = spread_error (default_values ! i) (Str (message e))"
  by (auto simp: less_Suc_eq numeral_eq_Suc resources_def default_values_def handleError_def)

lemma spread_defaults:
  "spread_error defaults_app v = Obj [(''categories'', Arr []), (''apps'', Arr []), (''error'', v)]"
  "spread_error defaults_bookmark v = Obj [(''groups'', Arr []), (''error'', v)]"
  "spread_error defaults_search v = Obj [(''providers'', Arr []), (''error'', v)]"
  "spread_error defaults_theme v = Obj [(''themes'', Arr []), (''error'', v)]"
  by (simp_all add: spread_error_def defaults_app_def defaults_bookmark_def
      defaults_search_def defaults_theme_def)

lemma spread_defaults_same:
  "spread_error defaults_app (Bool False) = defaults_app"
  "spread_error defaults_bookmark (Bool False) = defaults_bookmark"
  "spread_error defaults_search (Bool False) = defaults_search"
  "spread_error defaults_theme (Bool False) = defaults_theme"
  "spread_error defaults_imprint (Bool False) = defaults_imprint"
  by (simp_all add: spread_error_def defaults_app_def defaults_bookmark_def
      defaults_search_def defaults_theme_def defaults_imprint_def)

lemma new_slice_failure:
  "new_slice (spread_error d (Str msg)) =
     Inr (spread_error d (if msg = [] then Bool False else Str msg))"
  by (simp add: new_slice_def prop_error_spread spread_spread)

lemma handleError_five:
  "handleError ''apps'' e = spread_error defaults_app (Str (message e))"
  "handleError ''bookmark'' e = spread_error defaults_bookmark (Str (message e))"
  "handleError ''searchProvider'' e = spread_error defaults_search (Str (message e))"
  "handleError ''theme'' e = spread_error defaults_theme (Str (message e))"
  "handleError ''imprint'' e = spread_error defaults_imprint (Str (message e))"
  by (simp_all add: handleError_def)

lemma list5: "length t = 5 \<Longrightarrow> \<exists>a b c d e. t = [a, b, c, d, e]"
  by (auto simp: length_Suc_conv eval_nat_numeral)

lemma less5: "i < 5 \<Longrightarrow> i = 0 \<or> i = 1 \<or> i = 2 \<or> i = 3 \<or> i = (4::nat)"
  by arith

lemma on_loaded_slices:
  assumes "on_loaded t st = (None, st')" "length t = 5" "i < 5"
  shows "new_slice (t ! i) = Inr (slices st' ! i)"
proof -
  obtain a b c d e where t: "t = [a, b, c, d, e]"
    using list5 [OF assms(2)] by blast
  from on_loaded_completed [OF assms(1) [unfolded t]] less5 [OF assms(3)]
  show ?thesis
    by (auto simp: t slices_def)
qed

lemma on_loaded_completes:
  assumes "length t = 5" "Null \<notin> set t" "Undefined \<notin> set t"
  shows "\<exists>st'. on_loaded t st = (None, st')"
proof -
  obtain a b c d e where t: "t = [a, b, c, d, e]"
    using list5 [OF assms(1)] by blast
  obtain a' b' c' d' e' where
    "new_slice a = Inr a'" "new_slice b = Inr b'" "new_slice c = Inr c'"
    "new_slice d = Inr d'" "new_slice e = Inr e'"
    using assms(2,3) new_slice_defined [of a] new_slice_defined [of b] new_slice_defined [of c]
      new_slice_defined [of d] new_slice_defined [of e]
    by (auto simp: t)
  then show ?thesis
    by (simp add: t on_loaded_complete)
qed

lemma callback_production_map:
  "callback (fst (load_module ''production'' importer nw)) st =
     on_loaded (map (\<lambda>(path, status). load_result status (server nw path)) resources) st"
  by (simp add: callback_production resources_def)

lemma results_nth:
  "i < 5 \<Longrightarrow>
   map (\<lambda>(path, status). load_result status (server nw path)) resources ! i =
     load_result (snd (resources ! i)) (server nw (fst (resources ! i)))"
proof -
  assume "i < 5"
  then have "i < length resources" by (simp add: resources_def)
  then show ?thesis by (simp add: split_def)
qed

lemma results_length:
  "length (map (\<lambda>(path, status). load_result status (server nw path)) resources) = 5"
  by (simp add: resources_def)

lemmas run_defs =
  production_module_def callback_production load_result_def then_p_def handleResponse_def
  ok_def handleError_def spread_error_def on_loaded_def element_def write_slice_def
  setAppData_def setBookmarkData_def setSearchProviderData_def setThemeData_def
  setImprintData_def defaults_app_def defaults_bookmark_def defaults_search_def
  defaults_theme_def defaults_imprint_def initial_store_def errorMessage_def

lemmas server_defs =
  healthy_server_def json_ok_def apps_doc_def bookmarks_doc_def search_doc_def
  themes_doc_def imprint_doc_def

lemma callback_slices:
  assumes "callback (fst (load_module ''production'' importer nw)) st = (None, st')" "i < 5"
  shows "new_slice (load_result (snd (resources ! i)) (server nw (fst (resources ! i))))
     = Inr (slices st' ! i)"
proof -
  let ?t = "map (\<lambda>(path, status). load_result status (server nw path)) resources"
  have "on_loaded ?t st = (None, st')"
    using assms(1) by (simp add: callback_production_map)
  then have "new_slice (?t ! i) = Inr (slices st' ! i)"
    using results_length assms(2) by (rule on_loaded_slices)
  then show ?thesis
    by (simp add: results_nth [OF assms(2)])
qed

lemma fresh_refresh_production:
  "fst (fresh_refresh nw st) = callback (fst (load_module ''production'' importer nw)) st"
  by (simp add: fresh_refresh_def production_loads_results callback_production)

lemma load_module_requests:
  "requests (snd (load_module env importer nw)) = requests nw @ map fst resources"
  by (simp add: load_module_network production_loads_results)

lemma useFetcher_first:
  "useFetcher unmounted =
     (\<lparr>shown = initial_store, callback_fn = 0, effect_pending = True\<rparr>,
      \<lparr>app_cell = Some defaults_app, bookmark_cell = Some defaults_bookmark,
       search_cell = Some defaults_search, theme_cell = Some defaults_theme,
       imprint_cell = Some defaults_imprint, callback_cell = Some (0, []),
       effect_cell = Some [0], render_count = Suc 0\<rparr>)"
  by (simp add: useFetcher_def unmounted_def useState_def useCallback_def useEffect_def
      initial_store_def)

lemma render_pass_first:
  "render_pass m \<lparr>hooks = unmounted, effect_calls = 0\<rparr> =
     \<lparr>hooks = store_cells (snd (callback m initial_store)) (snd (useFetcher unmounted)),
      effect_calls = 1\<rparr>"
  by (simp add: render_pass_def useFetcher_first)

lemma render_pass_first_settled:
  "settled m (render_pass m \<lparr>hooks = unmounted, effect_calls = 0\<rparr>)"
  by (simp add: settled_def render_pass_first useFetcher_first store_cells_def)

lemma render_pass_settled:
  "settled m c \<Longrightarrow> settled m (render_pass m c)"
  by (simp add: settled_def render_pass_def useFetcher_def useCallback_def useEffect_def
      useState_def Let_def)

lemma passes_settled:
  "settled m ((render_pass m ^^ Suc n) \<lparr>hooks = unmounted, effect_calls = 0\<rparr>)"
  by (induction n) (simp_all add: render_pass_first_settled render_pass_settled)

lemma settled_render:
  assumes "settled m c"
  shows "shown (fst (useFetcher (hooks c))) = snd (callback m initial_store)"
    and "\<not> effect_pending (fst (useFetcher (hooks c)))"
    and "effect_calls c = 1"
  using assms
  by (simp_all add: settled_def useFetcher_def useCallback_def useEffect_def useState_def
      Let_def)

section \<open>Properties\<close>

text \<open>
  C10. \<^verbatim>\<open>handleError\<close> is a partial mapping over status strings: for each of
  \<^verbatim>\<open>"apps"\<close>, \<^verbatim>\<open>"bookmark"\<close>, \<^verbatim>\<open>"searchProvider"\<close>, \<^verbatim>\<open>"theme"\<close> and \<^verbatim>\<open>"imprint"\<close> it
  returns that kind's default payload with \<^verbatim>\<open>error\<close> set to the message of the given
  error, and for every other status string it returns \<^verbatim>\<open>undefined\<close>.
\<close>

theorem handleError_partial_mapping:
  "handleError ''apps'' e =
     Obj [(''categories'', Arr []), (''apps'', Arr []), (''error'', Str (message e))]
   \<and> handleError ''bookmark'' e = Obj [(''groups'', Arr []), (''error'', Str (message e))]
   \<and> handleError ''searchProvider'' e = Obj [(''providers'', Arr []), (''error'', Str (message e))]
   \<and> handleError ''theme'' e = Obj [(''themes'', Arr []), (''error'', Str (message e))]
   \<and> handleError ''imprint'' e =
       Obj [(''imprint'', Obj
              [(''name'', Obj [(''text'', Str ''''), (''link'', Str '''')]),
               (''address'', Obj [(''text'', Str ''''), (''link'', Str '''')]),
               (''phone'', Obj [(''text'', Str ''''), (''link'', Str '''')]),
               (''email'', Obj [(''text'', Str ''''), (''link'', Str '''')]),
               (''url'', Obj [(''text'', Str ''''), (''link'', Str '''')]),
               (''text'', Str '''')]),
            (''error'', Str (message e))]
   \<and> (status \<notin> {''apps'', ''bookmark'', ''searchProvider'', ''theme'', ''imprint''}
        \<longrightarrow> handleError status e = Undefined)"
  by (simp add: handleError_def spread_error_def defaults_app_def defaults_bookmark_def
      defaults_search_def defaults_theme_def defaults_imprint_def)

theorem handleError_partial_mapping_witness:
  "''widget'' \<notin> {''apps'', ''bookmark'', ''searchProvider'', ''theme'', ''imprint''}
   \<and> handleError ''widget'' (Error ''boom'') = Undefined
   \<and> handleError ''theme'' (Error ''boom'') = Obj [(''themes'', Arr []), (''error'', Str ''boom'')]"
  using handleError_partial_mapping [of "Error ''boom''" "''widget''"] by simp

text \<open>
  C2, as the code has it. For each of the five resources the aggregate load holds a
  result whose \<^verbatim>\<open>error\<close> is the message of the error that reached \<^verbatim>\<open>.catch\<close>: the
  message of the rejection of \<^verbatim>\<open>fetch\<close> on a network failure, the fixed message
  \<^verbatim>\<open>"Failed to load data."\<close> on a status outside 200..299, and the message of the
  rejection of \<^verbatim>\<open>response.json()\<close> on a body that does not parse.
\<close>

theorem failed_load_error_is_cause_message:
  assumes "i < 5"
  shows "\<exists>t. fst (production_loads nw) = Inr t \<and> length t = 5
    \<and> (\<forall>e. server nw (fst (resources ! i)) = Inl e
          \<longrightarrow> prop_error (t ! i) = Inr (Str (message e)))
    \<and> (\<forall>resp. server nw (fst (resources ! i)) = Inr resp \<and> \<not> ok resp
          \<longrightarrow> prop_error (t ! i) = Inr (Str errorMessage))
    \<and> (\<forall>resp e. server nw (fst (resources ! i)) = Inr resp \<and> ok resp \<and> resp_json resp = Inl e
          \<longrightarrow> prop_error (t ! i) = Inr (Str (message e)))"
proof -
  let ?t = "map (\<lambda>(path, status). load_result status (server nw path)) resources"
  have len: "length ?t = 5" by (simp add: resources_def)
  have "i < length resources" using assms by (simp add: resources_def)
  then have nth: "?t ! i = load_result (snd (resources ! i)) (server nw (fst (resources ! i)))"
    by (simp add: split_def)
  have err: "prop_error (handleError (snd (resources ! i)) e) = Inr (Str (message e))" for e
    using assms by (simp add: handleError_resources prop_error_spread)
  show ?thesis
  proof (intro exI conjI allI impI)
    show "fst (production_loads nw) = Inr ?t" by (rule production_loads_map)
    show "length ?t = 5" by (rule len)
  next
    fix e assume "server nw (fst (resources ! i)) = Inl e"
    then show "prop_error (?t ! i) = Inr (Str (message e))"
      by (simp add: nth load_result_network err)
  next
    fix resp assume "server nw (fst (resources ! i)) = Inr resp \<and> \<not> ok resp"
    then have "?t ! i = handleError (snd (resources ! i)) (Error errorMessage)"
      by (simp add: nth load_result_status)
    then show "prop_error (?t ! i) = Inr (Str errorMessage)"
      by (simp add: err)
  next
    fix resp e
    assume "server nw (fst (resources ! i)) = Inr resp \<and> ok resp \<and> resp_json resp = Inl e"
    then show "prop_error (?t ! i) = Inr (Str (message e))"
      by (simp add: nth load_result_unparsable err)
  qed
qed

theorem failed_load_error_is_cause_message_witness:
  "(0::nat) < 5 \<and> (1::nat) < 5 \<and> (2::nat) < 5
   \<and> faulty_server ''/data/apps.json'' = Inl (Error ''Failed to fetch'')
   \<and> \<not> ok (Response 503 (Inl (Error ''Unexpected end of JSON input'')))
   \<and> ok (Response 200 (Inl (Error ''Unexpected token < in JSON at position 0'')))
   \<and> (\<exists>t. fst (production_loads \<lparr>server = faulty_server, requests = []\<rparr>) = Inr t
        \<and> prop_error (t ! 0) = Inr (Str ''Failed to fetch'')
        \<and> prop_error (t ! 1) = Inr (Str ''Failed to load data.'')
        \<and> prop_error (t ! 2) = Inr (Str ''Unexpected token < in JSON at position 0''))"
proof -
  let ?nw = "\<lparr>server = faulty_server, requests = []\<rparr>"
  obtain t where t: "fst (production_loads ?nw) = Inr t"
    using failed_load_error_is_cause_message [of 0 ?nw] by auto
  have "prop_error (t ! 0) = Inr (Str ''Failed to fetch'')"
    using failed_load_error_is_cause_message [of 0 ?nw] t
    by (auto simp: resources_def faulty_server_def)
  moreover have "prop_error (t ! 1) = Inr (Str ''Failed to load data.'')"
    using failed_load_error_is_cause_message [of 1 ?nw] t
    by (auto simp: resources_def faulty_server_def ok_def errorMessage_def)
  moreover have "prop_error (t ! 2) = Inr (Str ''Unexpected token < in JSON at position 0'')"
    using failed_load_error_is_cause_message [of 2 ?nw] t
    by (auto simp: resources_def faulty_server_def ok_def)
  ultimately show ?thesis
    using t by (simp add: faulty_server_def ok_def)
qed

text \<open>
  C2 as stated fails: a network failure and an unparsable body put the cause's own
  message into the result, not the fixed one.
\<close>

theorem fixed_message_counterexample:
  "fst (production_loads \<lparr>server = faulty_server, requests = []\<rparr>) =
     Inr [Obj [(''categories'', Arr []), (''apps'', Arr []), (''error'', Str ''Failed to fetch'')],
          Obj [(''groups'', Arr []), (''error'', Str ''Failed to load data.'')],
          Obj [(''providers'', Arr []),
               (''error'', Str ''Unexpected token < in JSON at position 0'')],
          themes_doc, imprint_doc]
   \<and> Str ''Failed to fetch'' \<noteq> Str errorMessage
   \<and> Str ''Unexpected token < in JSON at position 0'' \<noteq> Str errorMessage"
  by (simp add: production_loads_results faulty_server_def healthy_server_def json_ok_def
      load_result_def then_p_def handleResponse_def ok_def handleError_def spread_error_def
      defaults_app_def defaults_bookmark_def defaults_search_def errorMessage_def)

text \<open>
  C9, as the code has it. If all five loads fail, the refresh completes and every slice
  is its initial default with only \<^verbatim>\<open>error\<close> replaced: by the message of that load's
  failure (the fixed message for a status outside 200..299, the cause's own message for a
  network failure or an unparsable body), or by \<^verbatim>\<open>false\<close> when that message is empty.
\<close>

theorem all_failed_state:
  assumes "then_p (server nw ''/data/apps.json'') handleResponse = Inl e1"
    and "then_p (server nw ''/data/bookmarks.json'') handleResponse = Inl e2"
    and "then_p (server nw ''/data/search.json'') handleResponse = Inl e3"
    and "then_p (server nw ''/data/themes.json'') handleResponse = Inl e4"
    and "then_p (server nw ''/data/imprint.json'') handleResponse = Inl e5"
  shows "callback (fst (load_module ''production'' importer nw)) st =
     (None,
      \<lparr>appData = spread_error (appData initial_store)
           (if message e1 = [] then Bool False else Str (message e1)),
       bookmarkData = spread_error (bookmarkData initial_store)
           (if message e2 = [] then Bool False else Str (message e2)),
       searchProviderData = spread_error (searchProviderData initial_store)
           (if message e3 = [] then Bool False else Str (message e3)),
       themeData = spread_error (themeData initial_store)
           (if message e4 = [] then Bool False else Str (message e4)),
       imprintData = spread_error (imprintData initial_store)
           (if message e5 = [] then Bool False else Str (message e5))\<rparr>)"
proof -
  have "callback (fst (load_module ''production'' importer nw)) st =
      on_loaded
        [spread_error defaults_app (Str (message e1)),
         spread_error defaults_bookmark (Str (message e2)),
         spread_error defaults_search (Str (message e3)),
         spread_error defaults_theme (Str (message e4)),
         spread_error defaults_imprint (Str (message e5))] st"
    using assms by (simp add: callback_production load_result_rejected handleError_five)
  also have "\<dots> =
      (None, st\<lparr>appData := spread_error defaults_app
                    (if message e1 = [] then Bool False else Str (message e1)),
                 bookmarkData := spread_error defaults_bookmark
                    (if message e2 = [] then Bool False else Str (message e2)),
                 searchProviderData := spread_error defaults_search
                    (if message e3 = [] then Bool False else Str (message e3)),
                 themeData := spread_error defaults_theme
                    (if message e4 = [] then Bool False else Str (message e4)),
                 imprintData := spread_error defaults_imprint
                    (if message e5 = [] then Bool False else Str (message e5))\<rparr>)"
    by (rule on_loaded_complete) (rule new_slice_failure)+
  finally show ?thesis
    by (simp add: initial_store_def)
qed

theorem all_failed_state_witness:
  "then_p (broken_server ''/data/apps.json'') handleResponse = Inl (Error ''Failed to fetch'')
   \<and> then_p (broken_server ''/data/bookmarks.json'') handleResponse = Inl (Error errorMessage)
   \<and> then_p (broken_server ''/data/search.json'') handleResponse
        = Inl (Error ''Unexpected token < in JSON at position 0'')
   \<and> then_p (broken_server ''/data/themes.json'') handleResponse = Inl (Error errorMessage)
   \<and> then_p (broken_server ''/data/imprint.json'') handleResponse = Inl (Error [])
   \<and> callback (production_module broken_server) initial_store =
     (None,
      \<lparr>appData = Obj [(''categories'', Arr []), (''apps'', Arr []),
                      (''error'', Str ''Failed to fetch'')],
       bookmarkData = Obj [(''groups'', Arr []), (''error'', Str ''Failed to load data.'')],
       searchProviderData = Obj [(''providers'', Arr []),
                      (''error'', Str ''Unexpected token < in JSON at position 0'')],
       themeData = Obj [(''themes'', Arr []), (''error'', Str ''Failed to load data.'')],
       imprintData = defaults_imprint\<rparr>)"
proof -
  let ?nw = "\<lparr>server = broken_server, requests = []\<rparr>"
  have r1: "then_p (server ?nw ''/data/apps.json'') handleResponse = Inl (Error ''Failed to fetch'')"
    by (simp add: broken_server_def then_p_def)
  have r2: "then_p (server ?nw ''/data/bookmarks.json'') handleResponse = Inl (Error errorMessage)"
    by (simp add: broken_server_def then_p_def handleResponse_def ok_def)
  have r3: "then_p (server ?nw ''/data/search.json'') handleResponse
      = Inl (Error ''Unexpected token < in JSON at position 0'')"
    by (simp add: broken_server_def then_p_def handleResponse_def ok_def)
  have r4: "then_p (server ?nw ''/data/themes.json'') handleResponse = Inl (Error errorMessage)"
    by (simp add: broken_server_def then_p_def handleResponse_def ok_def)
  have r5: "then_p (server ?nw ''/data/imprint.json'') handleResponse = Inl (Error [])"
    by (simp add: broken_server_def then_p_def handleResponse_def ok_def)
  show ?thesis
    using all_failed_state [OF r1 r2 r3 r4 r5, of no_imports initial_store] r1 r2 r3 r4 r5
    by (simp add: production_module_def initial_store_def spread_defaults spread_defaults_same
        errorMessage_def)
qed

text \<open>
  C9 as stated fails: with no connection all five loads fail, and every slice carries
  the browser's message instead of the fixed one.
\<close>

theorem all_failed_counterexample:
  "callback (production_module offline_server) initial_store =
     (None,
      \<lparr>appData = Obj [(''categories'', Arr []), (''apps'', Arr []),
                      (''error'', Str ''Failed to fetch'')],
       bookmarkData = Obj [(''groups'', Arr []), (''error'', Str ''Failed to fetch'')],
       searchProviderData = Obj [(''providers'', Arr []), (''error'', Str ''Failed to fetch'')],
       themeData = Obj [(''themes'', Arr []), (''error'', Str ''Failed to fetch'')],
       imprintData = spread_error defaults_imprint (Str ''Failed to fetch'')\<rparr>)
   \<and> Str ''Failed to fetch'' \<noteq> Str errorMessage"
proof -
  have "callback (production_module offline_server) initial_store =
      on_loaded
        [spread_error defaults_app (Str ''Failed to fetch''),
         spread_error defaults_bookmark (Str ''Failed to fetch''),
         spread_error defaults_search (Str ''Failed to fetch''),
         spread_error defaults_theme (Str ''Failed to fetch''),
         spread_error defaults_imprint (Str ''Failed to fetch'')] initial_store"
    by (simp add: production_module_def callback_production offline_server_def
        load_result_network handleError_five)
  also have "\<dots> =
      (None, initial_store\<lparr>appData := spread_error defaults_app (Str ''Failed to fetch''),
         bookmarkData := spread_error defaults_bookmark (Str ''Failed to fetch''),
         searchProviderData := spread_error defaults_search (Str ''Failed to fetch''),
         themeData := spread_error defaults_theme (Str ''Failed to fetch''),
         imprintData := spread_error defaults_imprint (Str ''Failed to fetch'')\<rparr>)"
    by (rule on_loaded_complete) (simp_all add: new_slice_failure)
  finally show ?thesis
    by (simp add: initial_store_def spread_defaults errorMessage_def)
qed

text \<open>
  C3, as the code has it. For every combination of outcomes of the five loads the
  aggregate promise is fulfilled, never rejected, with five results. The result of a
  resource depends on that resource alone: a failed load gives that kind's default
  payload with \<^verbatim>\<open>error\<close> set to the failure's message, a successful load gives its
  parsed payload. When the refresh completes, the slice of a successfully loaded payload
  that has no truthy \<^verbatim>\<open>error\<close> property of its own is that payload with
  \<^verbatim>\<open>error = false\<close>; and the refresh completes whenever none of the five results is
  \<^verbatim>\<open>null\<close> or \<^verbatim>\<open>undefined\<close>.
\<close>

theorem failure_is_isolated:
  assumes "i < 5"
  shows "\<exists>t. fst (production_loads nw) = Inr t \<and> length t = 5
    \<and> (\<forall>err. then_p (server nw (fst (resources ! i))) handleResponse = Inl err
          \<longrightarrow> t ! i = spread_error (default_values ! i) (Str (message err)))
    \<and> (\<forall>v. then_p (server nw (fst (resources ! i))) handleResponse = Inr v \<longrightarrow> t ! i = v)
    \<and> (\<forall>v st st'. then_p (server nw (fst (resources ! i))) handleResponse = Inr v
            \<and> no_error_flag v
            \<and> callback (fst (load_module ''production'' importer nw)) st = (None, st')
          \<longrightarrow> slices st' ! i = spread_error v (Bool False)
              \<and> prop_error (slices st' ! i) = Inr (Bool False))
    \<and> (Null \<notin> set t \<and> Undefined \<notin> set t
          \<longrightarrow> (\<forall>st. \<exists>st'. callback (fst (load_module ''production'' importer nw)) st = (None, st')))"
proof -
  let ?t = "map (\<lambda>(path, status). load_result status (server nw path)) resources"
  let ?m = "fst (load_module ''production'' importer nw)"
  let ?r = "then_p (server nw (fst (resources ! i))) handleResponse"
  note nth = results_nth [OF assms, of nw]
  have failed: "?t ! i = spread_error (default_values ! i) (Str (message err))"
    if "?r = Inl err" for err
    using that assms by (simp add: nth load_result_rejected handleError_resources)
  have loaded: "?t ! i = v" if "?r = Inr v" for v
    using that by (simp add: nth load_result_fulfilled)
  have slice: "slices st' ! i = spread_error v (Bool False)
      \<and> prop_error (slices st' ! i) = Inr (Bool False)"
    if "?r = Inr v" "no_error_flag v" "callback ?m st = (None, st')" for v st st'
  proof -
    have "on_loaded ?t st = (None, st')"
      using that(3) by (simp add: callback_production_map)
    then have "new_slice (?t ! i) = Inr (slices st' ! i)"
      using results_length assms by (rule on_loaded_slices)
    then have "slices st' ! i = spread_error v (Bool False)"
      using that(1,2) by (simp add: loaded new_slice_no_flag)
    then show ?thesis
      by (simp add: prop_error_spread)
  qed
  have completes: "\<exists>st'. callback ?m st = (None, st')"
    if "Null \<notin> set ?t \<and> Undefined \<notin> set ?t" for st
    using that on_loaded_completes [OF results_length, of nw st]
    by (simp add: callback_production_map)
  show ?thesis
    using production_loads_map [of nw] results_length [of nw] failed loaded slice completes
    by blast
qed

theorem failure_is_isolated_witness:
  "(0::nat) < 5 \<and> (3::nat) < 5
   \<and> then_p (faulty_server (fst (resources ! 0))) handleResponse = Inl (Error ''Failed to fetch'')
   \<and> then_p (faulty_server (fst (resources ! 3))) handleResponse = Inr themes_doc
   \<and> no_error_flag themes_doc
   \<and> (\<exists>t. fst (production_loads \<lparr>server = faulty_server, requests = []\<rparr>) = Inr t
        \<and> t ! 0 = Obj [(''categories'', Arr []), (''apps'', Arr []),
                        (''error'', Str ''Failed to fetch'')]
        \<and> t ! 3 = themes_doc)
   \<and> (\<exists>st'. callback (production_module faulty_server) initial_store = (None, st')
        \<and> themeData st' = spread_error themes_doc (Bool False)
        \<and> prop_error (themeData st') = Inr (Bool False))"
proof -
  let ?nw = "\<lparr>server = faulty_server, requests = []\<rparr>"
  let ?m = "fst (load_module ''production'' no_imports ?nw)"
  have r0: "then_p (server ?nw (fst (resources ! 0))) handleResponse = Inl (Error ''Failed to fetch'')"
    by (simp add: resources_def faulty_server_def then_p_def)
  have r3: "then_p (server ?nw (fst (resources ! 3))) handleResponse = Inr themes_doc"
    by (simp add: resources_def faulty_server_def healthy_server_def json_ok_def then_p_def
        handleResponse_def ok_def)
  have flag: "no_error_flag themes_doc"
    by (simp add: no_error_flag_def themes_doc_def)
  obtain t where t: "fst (production_loads ?nw) = Inr t"
    and failed: "\<forall>err. then_p (server ?nw (fst (resources ! 0))) handleResponse = Inl err
          \<longrightarrow> t ! 0 = spread_error (default_values ! 0) (Str (message err))"
    using failure_is_isolated [of 0 ?nw no_imports] by auto
  obtain t' where t': "fst (production_loads ?nw) = Inr t'"
    and loaded: "\<forall>v. then_p (server ?nw (fst (resources ! 3))) handleResponse = Inr v \<longrightarrow> t' ! 3 = v"
    and slice: "\<forall>v st st'. then_p (server ?nw (fst (resources ! 3))) handleResponse = Inr v
            \<and> no_error_flag v \<and> callback ?m st = (None, st')
          \<longrightarrow> slices st' ! 3 = spread_error v (Bool False)
              \<and> prop_error (slices st' ! 3) = Inr (Bool False)"
    and completes: "Null \<notin> set t' \<and> Undefined \<notin> set t'
          \<longrightarrow> (\<forall>st. \<exists>st'. callback ?m st = (None, st'))"
    using failure_is_isolated [of 3 ?nw no_imports] by auto
  have same: "t' = t" using t t' by simp
  have t0: "t ! 0 = Obj [(''categories'', Arr []), (''apps'', Arr []),
                        (''error'', Str ''Failed to fetch'')]"
    using failed r0 by (simp add: default_values_def spread_defaults)
  have t3: "t ! 3 = themes_doc"
    using loaded r3 same by simp
  have "Null \<notin> set t' \<and> Undefined \<notin> set t'"
    using t' by (auto simp: production_loads_results faulty_server_def server_defs
        load_result_def then_p_def handleResponse_def ok_def handleError_def spread_error_def)
  then obtain st' where st': "callback ?m initial_store = (None, st')"
    using completes by blast
  have "slices st' ! 3 = spread_error themes_doc (Bool False)
      \<and> prop_error (slices st' ! 3) = Inr (Bool False)"
    using slice r3 flag st' by blast
  then have "themeData st' = spread_error themes_doc (Bool False)
      \<and> prop_error (themeData st') = Inr (Bool False)"
    by (simp add: slices_def prop_error_spread)
  then show ?thesis
    using r0 r3 flag t t0 t3 st' by (simp add: production_module_def prop_error_spread)
qed

text \<open>
  C3 as stated fails: the themes request fails and the imprint loads, yet the imprint
  slice does not carry \<^verbatim>\<open>error = false\<close>, because the imprint document has a truthy
  \<^verbatim>\<open>error\<close> property of its own.
\<close>

theorem failure_is_isolated_counterexample:
  "callback
     (production_module
        (healthy_server
           (''/data/themes.json'' := Inl (Error ''Failed to fetch''),
            ''/data/imprint.json'' := json_ok (Obj [(''text'', Str ''Imprint''), (''error'', Num 1)]))))
     initial_store =
   (None,
    \<lparr>appData = spread_error apps_doc (Bool False),
     bookmarkData = spread_error bookmarks_doc (Bool False),
     searchProviderData = spread_error search_doc (Bool False),
     themeData = Obj [(''themes'', Arr []), (''error'', Str ''Failed to fetch'')],
     imprintData = Obj [(''text'', Str ''Imprint''), (''error'', Num 1)]\<rparr>)
   \<and> prop_error (Obj [(''text'', Str ''Imprint''), (''error'', Num 1)]) \<noteq> Inr (Bool False)"
  by (simp add: run_defs server_defs)

text \<open>
  C8, as the code has it. If the request for \<^verbatim>\<open>/data/apps.json\<close> returns status 500
  while the other four respond with a success status and a body that parses to a value
  with no truthy \<^verbatim>\<open>error\<close> property of its own (and is not \<^verbatim>\<open>null\<close>), then the refresh
  completes, \<^verbatim>\<open>appData\<close> is
  \<^verbatim>\<open>{categories: [], apps: [], error: "Failed to load data."}\<close>, and each of the other
  four slices is its parsed payload with \<^verbatim>\<open>error = false\<close>.
\<close>

theorem apps_500_scenario:
  assumes "server nw ''/data/apps.json'' = Inr (Response 500 body)"
    and "server nw ''/data/bookmarks.json'' = Inr r2" "ok r2" "resp_json r2 = Inr b"
      "no_error_flag b"
    and "server nw ''/data/search.json'' = Inr r3" "ok r3" "resp_json r3 = Inr s"
      "no_error_flag s"
    and "server nw ''/data/themes.json'' = Inr r4" "ok r4" "resp_json r4 = Inr t"
      "no_error_flag t"
    and "server nw ''/data/imprint.json'' = Inr r5" "ok r5" "resp_json r5 = Inr i"
      "no_error_flag i"
  shows "callback (fst (load_module ''production'' importer nw)) st =
     (None,
      \<lparr>appData = Obj [(''categories'', Arr []), (''apps'', Arr []),
                      (''error'', Str ''Failed to load data.'')],
       bookmarkData = spread_error b (Bool False),
       searchProviderData = spread_error s (Bool False),
       themeData = spread_error t (Bool False),
       imprintData = spread_error i (Bool False)\<rparr>)
   \<and> prop_error (spread_error b (Bool False)) = Inr (Bool False)
   \<and> prop_error (spread_error s (Bool False)) = Inr (Bool False)
   \<and> prop_error (spread_error t (Bool False)) = Inr (Bool False)
   \<and> prop_error (spread_error i (Bool False)) = Inr (Bool False)"
proof -
  have "\<not> ok (Response 500 body)"
    by (simp add: ok_def)
  then have apps: "load_result ''apps'' (Inr (Response 500 body))
      = spread_error defaults_app (Str errorMessage)"
    by (simp add: load_result_status handleError_five)
  have "callback (fst (load_module ''production'' importer nw)) st =
      on_loaded [spread_error defaults_app (Str errorMessage), b, s, t, i] st"
    using assms by (simp add: callback_production apps load_result_parsed)
  also have "\<dots> =
      (None, st\<lparr>appData := spread_error defaults_app (Str errorMessage),
                 bookmarkData := spread_error b (Bool False),
                 searchProviderData := spread_error s (Bool False),
                 themeData := spread_error t (Bool False),
                 imprintData := spread_error i (Bool False)\<rparr>)"
  proof (rule on_loaded_complete)
    show "new_slice (spread_error defaults_app (Str errorMessage))
        = Inr (spread_error defaults_app (Str errorMessage))"
      by (simp add: new_slice_failure errorMessage_def)
  qed (simp_all add: assms new_slice_no_flag)
  finally show ?thesis
    by (simp add: spread_defaults errorMessage_def prop_error_spread)
qed

theorem apps_500_scenario_witness:
  "(healthy_server (''/data/apps.json'' := Inr (Response 500 (Inl (Error ''Unexpected token I''))))) 
      ''/data/apps.json'' = Inr (Response 500 (Inl (Error ''Unexpected token I'')))
   \<and> ok (Response 200 (Inr bookmarks_doc)) \<and> no_error_flag bookmarks_doc
   \<and> no_error_flag search_doc \<and> no_error_flag themes_doc \<and> no_error_flag imprint_doc
   \<and> callback
       (production_module
          (healthy_server (''/data/apps.json'' := Inr (Response 500 (Inl (Error ''Unexpected token I''))))))
       initial_store =
     (None,
      \<lparr>appData = Obj [(''categories'', Arr []), (''apps'', Arr []),
                      (''error'', Str ''Failed to load data.'')],
       bookmarkData = Obj [(''groups'', Arr [Obj [(''name'', Str ''News'')]]), (''error'', Bool False)],
       searchProviderData = spread_error search_doc (Bool False),
       themeData = spread_error themes_doc (Bool False),
       imprintData = spread_error imprint_doc (Bool False)\<rparr>)"
proof -
  let ?srv = "healthy_server (''/data/apps.json'' := Inr (Response 500 (Inl (Error ''Unexpected token I''))))"
  let ?nw = "\<lparr>server = ?srv, requests = []\<rparr>"
  have flags: "no_error_flag bookmarks_doc" "no_error_flag search_doc"
    "no_error_flag themes_doc" "no_error_flag imprint_doc"
    by (simp_all add: no_error_flag_def server_defs)
  have oks: "ok (Response 200 (Inr v))" for v
    by (simp add: ok_def)
  have "callback (fst (load_module ''production'' no_imports ?nw)) initial_store =
     (None,
      \<lparr>appData = Obj [(''categories'', Arr []), (''apps'', Arr []),
                      (''error'', Str ''Failed to load data.'')],
       bookmarkData = spread_error bookmarks_doc (Bool False),
       searchProviderData = spread_error search_doc (Bool False),
       themeData = spread_error themes_doc (Bool False),
       imprintData = spread_error imprint_doc (Bool False)\<rparr>)"
    using apps_500_scenario [of ?nw "Inl (Error ''Unexpected token I'')"
        "Response 200 (Inr bookmarks_doc)" bookmarks_doc
        "Response 200 (Inr search_doc)" search_doc
        "Response 200 (Inr themes_doc)" themes_doc
        "Response 200 (Inr imprint_doc)" imprint_doc no_imports initial_store]
      flags oks
    by (simp add: healthy_server_def json_ok_def)
  then show ?thesis
    using flags oks
    by (simp add: production_module_def spread_error_def bookmarks_doc_def)
qed

text \<open>
  C8 as stated fails: the apps request returns 500 and the other four load, but the
  bookmarks document has a truthy \<^verbatim>\<open>error\<close> property, and the bookmark slice keeps it.
\<close>

theorem apps_500_scenario_counterexample:
  "callback
     (production_module
        (healthy_server
           (''/data/apps.json'' := Inr (Response 500 (Inl (Error ''Unexpected token I''))),
            ''/data/bookmarks.json'' :=
               json_ok (Obj [(''groups'', Arr []), (''error'', Str ''maintenance'')]))))
     initial_store =
   (None,
    \<lparr>appData = Obj [(''categories'', Arr []), (''apps'', Arr []),
                    (''error'', Str ''Failed to load data.'')],
     bookmarkData = Obj [(''groups'', Arr []), (''error'', Str ''maintenance'')],
     searchProviderData = spread_error search_doc (Bool False),
     themeData = spread_error themes_doc (Bool False),
     imprintData = spread_error imprint_doc (Bool False)\<rparr>)
   \<and> prop_error (Obj [(''groups'', Arr []), (''error'', Str ''maintenance'')])
       \<noteq> Inr (Bool False)"
  by (simp add: run_defs server_defs)

text \<open>
  C7, as the code has it. The aggregate load is fulfilled with the five results in the
  order apps, bookmarks, search providers, themes, imprint. If none of them is
  \<^verbatim>\<open>null\<close> or \<^verbatim>\<open>undefined\<close>, the handler completes and has written position 0 into
  \<^verbatim>\<open>appData\<close>, 1 into \<^verbatim>\<open>bookmarkData\<close>, 2 into \<^verbatim>\<open>searchProviderData\<close>, 3 into
  \<^verbatim>\<open>themeData\<close> and 4 into \<^verbatim>\<open>imprintData\<close>, each as the value its statement hands
  to the setter.
\<close>

theorem results_written_in_order:
  assumes "a = load_result ''apps'' (server nw ''/data/apps.json'')"
    and "b = load_result ''bookmark'' (server nw ''/data/bookmarks.json'')"
    and "s = load_result ''searchProvider'' (server nw ''/data/search.json'')"
    and "t = load_result ''theme'' (server nw ''/data/themes.json'')"
    and "i = load_result ''imprint'' (server nw ''/data/imprint.json'')"
    and "Null \<notin> {a, b, s, t, i}" "Undefined \<notin> {a, b, s, t, i}"
  shows "fst (production_loads nw) = Inr [a, b, s, t, i]
   \<and> (\<exists>st'. callback (fst (load_module ''production'' importer nw)) st = (None, st')
        \<and> new_slice a = Inr (appData st')
        \<and> new_slice b = Inr (bookmarkData st')
        \<and> new_slice s = Inr (searchProviderData st')
        \<and> new_slice t = Inr (themeData st')
        \<and> new_slice i = Inr (imprintData st'))"
proof -
  have results: "fst (production_loads nw) = Inr [a, b, s, t, i]"
    by (simp add: production_loads_results assms(1-5))
  have cb: "callback (fst (load_module ''production'' importer nw)) st
      = on_loaded [a, b, s, t, i] st"
    by (simp add: callback_production assms(1-5))
  have "\<exists>st'. on_loaded [a, b, s, t, i] st = (None, st')"
    using assms(6,7) by (intro on_loaded_completes) auto
  then obtain st' where st': "on_loaded [a, b, s, t, i] st = (None, st')" ..
  from on_loaded_completed [OF st'] results cb st' show ?thesis
    by simp
qed

theorem results_written_in_order_witness:
  "Null \<notin> {apps_doc, bookmarks_doc, search_doc, themes_doc, imprint_doc}
   \<and> Undefined \<notin> {apps_doc, bookmarks_doc, search_doc, themes_doc, imprint_doc}
   \<and> fst (production_loads \<lparr>server = healthy_server, requests = []\<rparr>)
       = Inr [apps_doc, bookmarks_doc, search_doc, themes_doc, imprint_doc]
   \<and> callback (production_module healthy_server) initial_store =
       (None,
        \<lparr>appData = spread_error apps_doc (Bool False),
         bookmarkData = spread_error bookmarks_doc (Bool False),
         searchProviderData = spread_error search_doc (Bool False),
         themeData = spread_error themes_doc (Bool False),
         imprintData = spread_error imprint_doc (Bool False)\<rparr>)"
proof -
  let ?nw = "\<lparr>server = healthy_server, requests = []\<rparr>"
  have l: "apps_doc = load_result ''apps'' (server ?nw ''/data/apps.json'')"
    "bookmarks_doc = load_result ''bookmark'' (server ?nw ''/data/bookmarks.json'')"
    "search_doc = load_result ''searchProvider'' (server ?nw ''/data/search.json'')"
    "themes_doc = load_result ''theme'' (server ?nw ''/data/themes.json'')"
    "imprint_doc = load_result ''imprint'' (server ?nw ''/data/imprint.json'')"
    by (simp_all add: healthy_server_def json_ok_def load_result_def then_p_def
        handleResponse_def ok_def)
  have n: "Null \<notin> {apps_doc, bookmarks_doc, search_doc, themes_doc, imprint_doc}"
    "Undefined \<notin> {apps_doc, bookmarks_doc, search_doc, themes_doc, imprint_doc}"
    by (simp_all add: server_defs)
  have f: "new_slice apps_doc = Inr (spread_error apps_doc (Bool False))"
    "new_slice bookmarks_doc = Inr (spread_error bookmarks_doc (Bool False))"
    "new_slice search_doc = Inr (spread_error search_doc (Bool False))"
    "new_slice themes_doc = Inr (spread_error themes_doc (Bool False))"
    "new_slice imprint_doc = Inr (spread_error imprint_doc (Bool False))"
    by (simp_all add: new_slice_def server_defs)
  obtain st' where "fst (production_loads ?nw)
        = Inr [apps_doc, bookmarks_doc, search_doc, themes_doc, imprint_doc]"
    and "callback (fst (load_module ''production'' no_imports ?nw)) initial_store = (None, st')"
    and "new_slice apps_doc = Inr (appData st')"
    and "new_slice bookmarks_doc = Inr (bookmarkData st')"
    and "new_slice search_doc = Inr (searchProviderData st')"
    and "new_slice themes_doc = Inr (themeData st')"
    and "new_slice imprint_doc = Inr (imprintData st')"
    using results_written_in_order [OF l n, of no_imports initial_store] by blast
  then show ?thesis
    using n by (cases st') (simp add: production_module_def f)
qed

text \<open>
  C7 as stated fails: when the apps document is \<^verbatim>\<open>null\<close> the read of its \<^verbatim>\<open>error\<close>
  throws, and no position of the tuple is written: the bookmark slice stays at its
  default although position 1 holds the bookmarks document.
\<close>

theorem results_written_in_order_counterexample:
  "fst (production_loads
      \<lparr>server = healthy_server (''/data/apps.json'' := json_ok Null), requests = []\<rparr>)
     = Inr [Null, bookmarks_doc, search_doc, themes_doc, imprint_doc]
   \<and> callback (production_module (healthy_server (''/data/apps.json'' := json_ok Null)))
       initial_store = (Some TypeError, initial_store)
   \<and> new_slice bookmarks_doc \<noteq> Inr (bookmarkData initial_store)"
  by (simp add: run_defs server_defs production_loads_results new_slice_def)

text \<open>
  C4, as the code has it. Take a successful load whose parsed payload \<open>v\<close> reads
  \<^verbatim>\<open>v.error\<close> as \<open>e\<close>. The refresh completes whenever none of the five results is
  \<^verbatim>\<open>null\<close> or \<^verbatim>\<open>undefined\<close>, and after every completed refresh: if \<open>e\<close> is truthy
  the slice is the payload itself and its \<^verbatim>\<open>error\<close> is \<open>e\<close>, the payload's own value;
  only if \<open>e\<close> is absent or falsy is the slice the payload with \<^verbatim>\<open>error\<close>
  re-asserted to \<^verbatim>\<open>false\<close>.
\<close>

theorem payload_error_field_decides:
  assumes "i < 5"
    and "then_p (server nw (fst (resources ! i))) handleResponse = Inr v"
    and "prop_error v = Inr e"
  shows "\<exists>t. fst (production_loads nw) = Inr t \<and> length t = 5 \<and> t ! i = v
    \<and> (Null \<notin> set t \<and> Undefined \<notin> set t
          \<longrightarrow> (\<forall>st. \<exists>st'. callback (fst (load_module ''production'' importer nw)) st = (None, st')))
    \<and> (\<forall>st st'. callback (fst (load_module ''production'' importer nw)) st = (None, st')
          \<longrightarrow> (truthy e \<longrightarrow> slices st' ! i = v \<and> prop_error (slices st' ! i) = Inr e)
            \<and> (\<not> truthy e \<longrightarrow> slices st' ! i = spread_error v (Bool False)
                  \<and> prop_error (slices st' ! i) = Inr (Bool False)))"
proof -
  let ?t = "map (\<lambda>(path, status). load_result status (server nw path)) resources"
  let ?m = "fst (load_module ''production'' importer nw)"
  have loaded: "?t ! i = v"
    using assms(2) by (simp add: results_nth [OF assms(1)] load_result_fulfilled)
  have completes: "\<exists>st'. callback ?m st = (None, st')"
    if "Null \<notin> set ?t \<and> Undefined \<notin> set ?t" for st
    using that on_loaded_completes [OF results_length, of nw st]
    by (simp add: callback_production_map)
  have slice: "(truthy e \<longrightarrow> slices st' ! i = v \<and> prop_error (slices st' ! i) = Inr e)
      \<and> (\<not> truthy e \<longrightarrow> slices st' ! i = spread_error v (Bool False)
            \<and> prop_error (slices st' ! i) = Inr (Bool False))"
    if "callback ?m st = (None, st')" for st st'
  proof -
    have "new_slice v = Inr (slices st' ! i)"
      using callback_slices [OF that assms(1)] assms(2) by (simp add: load_result_fulfilled)
    then have "slices st' ! i = (if truthy e then v else spread_error v (Bool False))"
      using assms(3) by (simp add: new_slice_def)
    then show ?thesis
      using assms(3) by (simp add: prop_error_spread)
  qed
  show ?thesis
    using production_loads_map [of nw] results_length [of nw] loaded completes slice
    by blast
qed

theorem payload_error_field_decides_witness:
  "(0::nat) < 5 \<and> (3::nat) < 5
   \<and> prop_error (Obj [(''categories'', Arr []), (''apps'', Arr []), (''error'', Str ''deprecated'')])
       = Inr (Str ''deprecated'')
   \<and> truthy (Str ''deprecated'')
   \<and> prop_error (Obj [(''themes'', Arr []), (''error'', Num 0)]) = Inr (Num 0)
   \<and> \<not> truthy (Num 0)
   \<and> Null \<notin> set [Obj [(''categories'', Arr []), (''apps'', Arr []), (''error'', Str ''deprecated'')],
         bookmarks_doc, search_doc, Obj [(''themes'', Arr []), (''error'', Num 0)], imprint_doc]
   \<and> Undefined \<notin> set [Obj [(''categories'', Arr []), (''apps'', Arr []), (''error'', Str ''deprecated'')],
         bookmarks_doc, search_doc, Obj [(''themes'', Arr []), (''error'', Num 0)], imprint_doc]
   \<and> callback
       (production_module
          (healthy_server
             (''/data/apps.json'' := json_ok
                 (Obj [(''categories'', Arr []), (''apps'', Arr []), (''error'', Str ''deprecated'')]),
              ''/data/themes.json'' := json_ok (Obj [(''themes'', Arr []), (''error'', Num 0)]))))
       initial_store =
     (None,
      \<lparr>appData = Obj [(''categories'', Arr []), (''apps'', Arr []), (''error'', Str ''deprecated'')],
       bookmarkData = spread_error bookmarks_doc (Bool False),
       searchProviderData = spread_error search_doc (Bool False),
       themeData = Obj [(''themes'', Arr []), (''error'', Bool False)],
       imprintData = spread_error imprint_doc (Bool False)\<rparr>)"
proof -
  let ?a = "Obj [(''categories'', Arr []), (''apps'', Arr []), (''error'', Str ''deprecated'')]"
  let ?t = "Obj [(''themes'', Arr []), (''error'', Num 0)]"
  let ?srv = "healthy_server (''/data/apps.json'' := json_ok ?a, ''/data/themes.json'' := json_ok ?t)"
  let ?nw = "\<lparr>server = ?srv, requests = []\<rparr>"
  let ?m = "fst (load_module ''production'' no_imports ?nw)"
  have r0: "then_p (server ?nw (fst (resources ! 0))) handleResponse = Inr ?a"
    by (simp add: resources_def json_ok_def then_p_def handleResponse_def ok_def)
  have r3: "then_p (server ?nw (fst (resources ! 3))) handleResponse = Inr ?t"
    by (simp add: resources_def json_ok_def then_p_def handleResponse_def ok_def)
  have e0: "prop_error ?a = Inr (Str ''deprecated'')" by simp
  have e3: "prop_error ?t = Inr (Num 0)" by simp
  obtain t where t: "fst (production_loads ?nw) = Inr t"
    and completes: "Null \<notin> set t \<and> Undefined \<notin> set t
        \<longrightarrow> (\<forall>st. \<exists>st'. callback ?m st = (None, st'))"
    using payload_error_field_decides [OF _ r0 e0, of no_imports] by auto
  have t_eq: "t = [?a, bookmarks_doc, search_doc, ?t, imprint_doc]"
    using t by (simp add: production_loads_results healthy_server_def json_ok_def
        load_result_def then_p_def handleResponse_def ok_def)
  have nonnull: "Null \<notin> set [?a, bookmarks_doc, search_doc, ?t, imprint_doc]
      \<and> Undefined \<notin> set [?a, bookmarks_doc, search_doc, ?t, imprint_doc]"
    by (simp add: server_defs)
  then obtain st' where st': "callback ?m initial_store = (None, st')"
    using completes t_eq by blast
  have "slices st' ! 0 = ?a"
    using payload_error_field_decides [OF _ r0 e0, of no_imports] st' by auto
  moreover have "slices st' ! 3 = spread_error ?t (Bool False)"
    using payload_error_field_decides [OF _ r3 e3, of no_imports] st' by auto
  moreover have "bookmarkData st' = spread_error bookmarks_doc (Bool False)"
    "searchProviderData st' = spread_error search_doc (Bool False)"
    "imprintData st' = spread_error imprint_doc (Bool False)"
    using st' by (auto simp: run_defs server_defs)
  ultimately have "st' =
      \<lparr>appData = ?a,
       bookmarkData = spread_error bookmarks_doc (Bool False),
       searchProviderData = spread_error search_doc (Bool False),
       themeData = Obj [(''themes'', Arr []), (''error'', Bool False)],
       imprintData = spread_error imprint_doc (Bool False)\<rparr>"
    by (cases st') (simp add: slices_def spread_error_def)
  then show ?thesis
    using st' nonnull by (simp add: production_module_def)
qed

text \<open>
  C4 as stated fails: the apps document loads and has a truthy \<^verbatim>\<open>error\<close> property;
  the slice keeps that value, it is not \<^verbatim>\<open>false\<close>.
\<close>

theorem payload_error_field_counterexample:
  "callback
     (production_module
        (healthy_server
           (''/data/apps.json'' := json_ok
              (Obj [(''categories'', Arr []), (''apps'', Arr []), (''error'', Str ''deprecated'')]))))
     initial_store =
   (None,
    \<lparr>appData = Obj [(''categories'', Arr []), (''apps'', Arr []), (''error'', Str ''deprecated'')],
     bookmarkData = spread_error bookmarks_doc (Bool False),
     searchProviderData = spread_error search_doc (Bool False),
     themeData = spread_error themes_doc (Bool False),
     imprintData = spread_error imprint_doc (Bool False)\<rparr>)
   \<and> truthy (Str ''deprecated'')
   \<and> prop_error (Obj [(''categories'', Arr []), (''apps'', Arr []), (''error'', Str ''deprecated'')])
       \<noteq> Inr (Bool False)"
  by (simp add: run_defs server_defs)

text \<open>
  C5, as the code has it. Initially every slice is its default, with \<^verbatim>\<open>error = false\<close>.
  After every completed refresh each slice is in one of these states: for a failed load,
  the default payload with the failure's message as \<^verbatim>\<open>error\<close> (with \<^verbatim>\<open>false\<close> if that
  message is empty); for a loaded payload without a truthy \<^verbatim>\<open>error\<close> of its own, that
  payload with \<^verbatim>\<open>error = false\<close>; for a loaded payload with a truthy \<^verbatim>\<open>error\<close> of
  its own, that payload unchanged. Whether a payload is partial is not examined by the
  code and is not part of the statement.
\<close>

theorem slice_states:
  assumes "i < 5"
    and "callback (fst (load_module ''production'' importer nw)) st = (None, st')"
  shows "slices initial_store ! i = default_values ! i
   \<and> prop_error (default_values ! i) = Inr (Bool False)
   \<and> (case then_p (server nw (fst (resources ! i))) handleResponse of
         Inl err \<Rightarrow>
           slices st' ! i = spread_error (default_values ! i)
             (if message err = [] then Bool False else Str (message err))
       | Inr v \<Rightarrow>
           (if no_error_flag v
            then slices st' ! i = spread_error v (Bool False)
              \<and> prop_error (slices st' ! i) = Inr (Bool False)
            else slices st' ! i = v \<and> (\<exists>e. prop_error v = Inr e \<and> truthy e)))"
proof -
  let ?r = "then_p (server nw (fst (resources ! i))) handleResponse"
  have init: "slices initial_store ! i = default_values ! i"
    by (simp add: slices_def initial_store_def default_values_def)
  have dflt: "prop_error (default_values ! i) = Inr (Bool False)"
    using less5 [OF assms(1)]
    by (auto simp: default_values_def defaults_app_def defaults_bookmark_def
        defaults_search_def defaults_theme_def defaults_imprint_def)
  note slice = callback_slices [OF assms(2,1)]
  have "slices st' ! i = spread_error (default_values ! i)
      (if message err = [] then Bool False else Str (message err))"
    if "?r = Inl err" for err
    using slice that assms(1)
    by (simp add: load_result_rejected handleError_resources new_slice_failure)
  moreover have "slices st' ! i = spread_error v (Bool False)
      \<and> prop_error (slices st' ! i) = Inr (Bool False)"
    if "?r = Inr v" "no_error_flag v" for v
  proof -
    have "slices st' ! i = spread_error v (Bool False)"
      using slice that by (simp add: load_result_fulfilled new_slice_no_flag)
    then show ?thesis by (simp add: prop_error_spread)
  qed
  moreover have "slices st' ! i = v \<and> (\<exists>e. prop_error v = Inr e \<and> truthy e)"
    if "?r = Inr v" "\<not> no_error_flag v" for v
    using slice that
    by (auto simp: load_result_fulfilled new_slice_def no_error_flag_def split: sum.splits)
  ultimately show ?thesis
    using init dflt by (simp add: prop_error_spread split: sum.splits)
qed

theorem slice_states_witness:
  "(0::nat) < 5 \<and> (3::nat) < 5
   \<and> callback (production_module faulty_server) initial_store =
     (None,
      \<lparr>appData = Obj [(''categories'', Arr []), (''apps'', Arr []),
                      (''error'', Str ''Failed to fetch'')],
       bookmarkData = Obj [(''groups'', Arr []), (''error'', Str ''Failed to load data.'')],
       searchProviderData = Obj [(''providers'', Arr []),
                      (''error'', Str ''Unexpected token < in JSON at position 0'')],
       themeData = spread_error themes_doc (Bool False),
       imprintData = spread_error imprint_doc (Bool False)\<rparr>)"
proof -
  let ?nw = "\<lparr>server = faulty_server, requests = []\<rparr>"
  let ?m = "fst (load_module ''production'' no_imports ?nw)"
  obtain st' where st': "callback ?m initial_store = (None, st')"
    by (simp add: run_defs server_defs faulty_server_def)
  have r0: "then_p (server ?nw (fst (resources ! 0))) handleResponse = Inl (Error ''Failed to fetch'')"
    by (simp add: resources_def faulty_server_def then_p_def)
  have r3: "then_p (server ?nw (fst (resources ! 3))) handleResponse = Inr themes_doc"
    by (simp add: resources_def faulty_server_def healthy_server_def json_ok_def then_p_def
        handleResponse_def ok_def)
  have "no_error_flag themes_doc"
    by (simp add: no_error_flag_def themes_doc_def)
  then have "slices st' ! 3 = spread_error themes_doc (Bool False)"
    using slice_states [of 3 no_imports ?nw initial_store st', OF _ st'] r3 by simp
  moreover have "slices st' ! 0 = spread_error (default_values ! 0) (Str ''Failed to fetch'')"
    using slice_states [of 0 no_imports ?nw initial_store st', OF _ st'] r0 by simp
  moreover have "bookmarkData st' = Obj [(''groups'', Arr []), (''error'', Str ''Failed to load data.'')]"
    "searchProviderData st' = Obj [(''providers'', Arr []),
                      (''error'', Str ''Unexpected token < in JSON at position 0'')]"
    "imprintData st' = spread_error imprint_doc (Bool False)"
    using st' by (auto simp: run_defs server_defs faulty_server_def)
  ultimately have "st' =
      \<lparr>appData = Obj [(''categories'', Arr []), (''apps'', Arr []),
                      (''error'', Str ''Failed to fetch'')],
       bookmarkData = Obj [(''groups'', Arr []), (''error'', Str ''Failed to load data.'')],
       searchProviderData = Obj [(''providers'', Arr []),
                      (''error'', Str ''Unexpected token < in JSON at position 0'')],
       themeData = spread_error themes_doc (Bool False),
       imprintData = spread_error imprint_doc (Bool False)\<rparr>"
    by (cases st') (simp add: slices_def default_values_def spread_defaults)
  then show ?thesis
    using st' by (simp add: production_module_def)
qed

text \<open>
  C5 as stated fails: after a completed refresh in which the themes document loads and
  has a truthy \<^verbatim>\<open>error\<close> property, the theme slice pairs a payload that is not the
  default with a truthy error.
\<close>

theorem slice_states_counterexample:
  "callback
     (production_module
        (healthy_server
           (''/data/themes.json'' := json_ok
              (Obj [(''themes'', Arr [Obj [(''label'', Str ''Classic'')]]),
                    (''error'', Str ''draft'')]))))
     initial_store =
   (None,
    \<lparr>appData = spread_error apps_doc (Bool False),
     bookmarkData = spread_error bookmarks_doc (Bool False),
     searchProviderData = spread_error search_doc (Bool False),
     themeData = Obj [(''themes'', Arr [Obj [(''label'', Str ''Classic'')]]),
                      (''error'', Str ''draft'')],
     imprintData = spread_error imprint_doc (Bool False)\<rparr>)
   \<and> \<not> spec_slice_state defaults_theme
         (Obj [(''themes'', Arr [Obj [(''label'', Str ''Classic'')]]), (''error'', Str ''draft'')])"
  by (simp add: run_defs server_defs spec_slice_state_def)

text \<open>
  C1, as the code has it. \<^verbatim>\<open>fetchProduction\<close> is a promise created once, when the
  module is evaluated; that evaluation issues the five requests. Every invocation of
  \<^verbatim>\<open>callback\<close> derives the five slices from that one settled result: it equals a
  refresh run against the network as it was at module evaluation, whatever the network
  has become since, and a second invocation writes what the first wrote.
\<close>

theorem refresh_reads_module_load:
  "callback (fst (load_module ''production'' importer nw)) st = fst (fresh_refresh nw st)
   \<and> requests (snd (load_module env importer nw)) =
       requests nw @ [''/data/apps.json'', ''/data/bookmarks.json'', ''/data/search.json'',
                      ''/data/themes.json'', ''/data/imprint.json'']
   \<and> callback m (snd (callback m st)) = callback m st"
  by (simp add: fresh_refresh_production [symmetric] load_module_requests resources_def
      callback_again)

text \<open>
  C1 as stated fails: the module is evaluated against the healthy server, then the apps
  document changes on the server. An invocation of \<^verbatim>\<open>callback\<close> still writes the old
  document, where a fresh execution of the five loads would write the new one; the only
  requests ever issued are the five of the module's evaluation.
\<close>

theorem refresh_not_fresh_counterexample:
  "requests edited_network =
     [''/data/apps.json'', ''/data/bookmarks.json'', ''/data/search.json'',
      ''/data/themes.json'', ''/data/imprint.json'']
   \<and> server edited_network ''/data/apps.json''
       = json_ok (Obj [(''categories'', Arr []), (''apps'', Arr [])])
   \<and> appData (snd (callback (production_module healthy_server) initial_store))
       = Obj [(''categories'', Arr []), (''apps'', Arr [Obj [(''name'', Str ''Mail'')]]),
              (''error'', Bool False)]
   \<and> appData (snd (fst (fresh_refresh edited_network initial_store)))
       = Obj [(''categories'', Arr []), (''apps'', Arr []), (''error'', Bool False)]
   \<and> callback (production_module healthy_server) initial_store
       \<noteq> fst (fresh_refresh edited_network initial_store)"
proof -
  have req: "requests edited_network =
     [''/data/apps.json'', ''/data/bookmarks.json'', ''/data/search.json'',
      ''/data/themes.json'', ''/data/imprint.json'']"
    by (simp add: edited_network_def load_module_requests resources_def)
  have srv: "server edited_network ''/data/apps.json''
       = json_ok (Obj [(''categories'', Arr []), (''apps'', Arr [])])"
    by (simp add: edited_network_def)
  have old: "appData (snd (callback (production_module healthy_server) initial_store))
       = Obj [(''categories'', Arr []), (''apps'', Arr [Obj [(''name'', Str ''Mail'')]]),
              (''error'', Bool False)]"
    by (simp add: run_defs server_defs)
  have new: "appData (snd (fst (fresh_refresh edited_network initial_store)))
       = Obj [(''categories'', Arr []), (''apps'', Arr []), (''error'', Bool False)]"
    by (simp add: fresh_refresh_def production_loads_results edited_network_def
        run_defs server_defs)
  have "callback (production_module healthy_server) initial_store
       \<noteq> fst (fresh_refresh edited_network initial_store)"
    using old new by auto
  then show ?thesis
    using req srv old new by simp
qed

text \<open>
  C6. On the first render of \<^verbatim>\<open>useFetcher\<close> all five slices hold their defaults, each
  with \<^verbatim>\<open>error = false\<close>, and the effect is pending with no call from outside. The
  first pass calls \<^verbatim>\<open>callback\<close> on that initial state, once, and the state cells then
  hold what the call wrote. However many renders follow, the effect is not pending
  again and has called \<^verbatim>\<open>callback\<close> exactly once, since \<^verbatim>\<open>useCallback\<close> with no
  dependencies keeps returning the function of the first render; every later render
  shows the state that the one call wrote.
\<close>

theorem initial_state_and_single_refresh:
  "shown (fst (useFetcher unmounted)) = initial_store
   \<and> appData initial_store = defaults_app \<and> prop_error defaults_app = Inr (Bool False)
   \<and> bookmarkData initial_store = defaults_bookmark
   \<and> prop_error defaults_bookmark = Inr (Bool False)
   \<and> searchProviderData initial_store = defaults_search
   \<and> prop_error defaults_search = Inr (Bool False)
   \<and> themeData initial_store = defaults_theme \<and> prop_error defaults_theme = Inr (Bool False)
   \<and> imprintData initial_store = defaults_imprint
   \<and> prop_error defaults_imprint = Inr (Bool False)
   \<and> effect_pending (fst (useFetcher unmounted))
   \<and> render_pass m \<lparr>hooks = unmounted, effect_calls = 0\<rparr> =
       \<lparr>hooks = store_cells (snd (callback m initial_store)) (snd (useFetcher unmounted)),
        effect_calls = 1\<rparr>
   \<and> effect_calls (render_pass m \<lparr>hooks = unmounted, effect_calls = 0\<rparr>) = 1
   \<and> effect_calls ((render_pass m ^^ Suc n) \<lparr>hooks = unmounted, effect_calls = 0\<rparr>) = 1
   \<and> \<not> effect_pending
         (fst (useFetcher (hooks ((render_pass m ^^ Suc n) \<lparr>hooks = unmounted, effect_calls = 0\<rparr>))))
   \<and> shown (fst (useFetcher (hooks ((render_pass m ^^ Suc n) \<lparr>hooks = unmounted, effect_calls = 0\<rparr>))))
       = snd (callback m initial_store)"
proof -
  let ?c = "(render_pass m ^^ Suc n) \<lparr>hooks = unmounted, effect_calls = 0\<rparr>"
  have later: "settled m ?c"
    by (rule passes_settled)
  have first: "effect_calls (render_pass m \<lparr>hooks = unmounted, effect_calls = 0\<rparr>) = 1"
    by (simp add: render_pass_first)
  have init: "shown (fst (useFetcher unmounted)) = initial_store"
    "effect_pending (fst (useFetcher unmounted))"
    by (simp_all add: useFetcher_first)
  have dflt: "appData initial_store = defaults_app" "prop_error defaults_app = Inr (Bool False)"
    "bookmarkData initial_store = defaults_bookmark"
    "prop_error defaults_bookmark = Inr (Bool False)"
    "searchProviderData initial_store = defaults_search"
    "prop_error defaults_search = Inr (Bool False)"
    "themeData initial_store = defaults_theme" "prop_error defaults_theme = Inr (Bool False)"
    "imprintData initial_store = defaults_imprint"
    "prop_error defaults_imprint = Inr (Bool False)"
    by (simp_all add: initial_store_def defaults_app_def defaults_bookmark_def
        defaults_search_def defaults_theme_def defaults_imprint_def)
  show ?thesis
    using init dflt first render_pass_first [of m] settled_render [OF later]
    by (simp del: funpow.simps)
qed

theorem initial_state_and_single_refresh_witness:
  "effect_calls
     ((render_pass (production_module healthy_server) ^^ Suc 2)
        \<lparr>hooks = unmounted, effect_calls = 0\<rparr>) = 1
   \<and> shown (fst (useFetcher (hooks
       ((render_pass (production_module healthy_server) ^^ Suc 2)
          \<lparr>hooks = unmounted, effect_calls = 0\<rparr>)))) =
     \<lparr>appData = spread_error apps_doc (Bool False),
      bookmarkData = spread_error bookmarks_doc (Bool False),
      searchProviderData = spread_error search_doc (Bool False),
      themeData = spread_error themes_doc (Bool False),
      imprintData = spread_error imprint_doc (Bool False)\<rparr>"
proof -
  have "snd (callback (production_module healthy_server) initial_store) =
     \<lparr>appData = spread_error apps_doc (Bool False),
      bookmarkData = spread_error bookmarks_doc (Bool False),
      searchProviderData = spread_error search_doc (Bool False),
      themeData = spread_error themes_doc (Bool False),
      imprintData = spread_error imprint_doc (Bool False)\<rparr>"
    by (simp add: run_defs server_defs)
  then show ?thesis
    using initial_state_and_single_refresh [of "production_module healthy_server" 2]
    by (simp del: funpow.simps)
qed

end
